theory Spec2Isabelle
  imports Complex_Main "HOL-Library.Sublist"
begin

section \<open>Python values used by \<open>sandbox/expression.py\<close>\<close>

text \<open>
  Text is a \<open>string\<close>: a list of characters with code points below 256. A text file is
  the list of its lines, as iterating over the file handle produces them (each line with
  its terminator, the last one possibly without). A path is the list of its components, a
  file system maps a path to the lines of the file stored there.
\<close>

type_synonym path = "string list"
type_synonym filesystem = "path \<rightharpoonup> string list"

datatype error = ValueError | IndexError | KeyError | OSError | DatabaseError string

definition TAB :: char where
  "TAB = CHR 0x09"

definition isspace :: "char \<Rightarrow> bool" where
  \<comment> \<open>\<open>str.isspace\<close> on the code points below 256\<close>
  "isspace c \<longleftrightarrow> c \<in> set [CHR 0x09, CHR 0x0A, CHR 0x0B, CHR 0x0C, CHR 0x0D, CHR 0x1C,
     CHR 0x1D, CHR 0x1E, CHR 0x1F, CHR 0x20, CHR 0x85, CHR 0xA0]"

definition strip :: "string \<Rightarrow> string" where
  \<comment> \<open>\<open>s.strip()\<close>\<close>
  "strip s = rev (dropWhile isspace (rev (dropWhile isspace s)))"

definition startswith :: "string \<Rightarrow> string \<Rightarrow> bool" where
  \<comment> \<open>\<open>s.startswith(p)\<close>\<close>
  "startswith s p \<longleftrightarrow> take (length p) s = p"

fun split_on :: "char \<Rightarrow> string \<Rightarrow> string list" where
  \<comment> \<open>\<open>s.split(sep)\<close> for a separator of one character: never an empty list\<close>
  "split_on sep [] = [[]]"
| "split_on sep (c # cs) =
     (if c = sep then [] # split_on sep cs
      else (case split_on sep cs of
              [] \<Rightarrow> [[c]]
            | f # fs \<Rightarrow> (c # f) # fs))"

fun join :: "string \<Rightarrow> string list \<Rightarrow> string" where
  \<comment> \<open>\<open>sep.join(xs)\<close>\<close>
  "join sep [] = []"
| "join sep [x] = x"
| "join sep (x # y # ys) = x @ sep @ join sep (y # ys)"

definition path_name :: "path \<Rightarrow> string" where
  \<comment> \<open>\<open>Path.name\<close>: the final component, empty for a path without components\<close>
  "path_name p = (if p = [] then [] else last p)"

definition path_join :: "path \<Rightarrow> string \<Rightarrow> path" where
  \<comment> \<open>\<open>p / name\<close> for a name of one component\<close>
  "path_join p name = p @ [name]"

subsection \<open>\<open>int(s)\<close> and \<open>float(s)\<close>\<close>

text \<open>
  Around a number \<open>int\<close> and \<open>float\<close> skip less than \<open>str.strip\<close> removes: the
  ASCII white space (tab to carriage return, and the space) and the Unicode white space
  above 127, but not the separators U+001C to U+001F, which make the text invalid.
  \<open>int\<close> refuses a text of more than 4300 digits (the default of
  \<open>sys.get_int_max_str_digits()\<close>; leading zeros count, underscores and the sign do
  not).
\<close>

definition isspace_num :: "char \<Rightarrow> bool" where
  "isspace_num c \<longleftrightarrow> c \<in> set [CHR 0x09, CHR 0x0A, CHR 0x0B, CHR 0x0C, CHR 0x0D, CHR 0x20,
     CHR 0x85, CHR 0xA0]"

definition strip_num :: "string \<Rightarrow> string" where
  "strip_num s = rev (dropWhile isspace_num (rev (dropWhile isspace_num s)))"

definition int_max_str_digits :: nat where
  "int_max_str_digits = 4300"

definition isdigit :: "char \<Rightarrow> bool" where
  "isdigit c \<longleftrightarrow> (48::nat) \<le> of_char c \<and> of_char c \<le> (57::nat)"

definition int_of_digits :: "string \<Rightarrow> int" where
  "int_of_digits ds = foldl (\<lambda>n c. 10 * n + (of_char c - 48)) 0 ds"

definition digit_groups :: "string \<Rightarrow> string option" where
  \<comment> \<open>one or more digits, single underscores allowed between digits; the digits\<close>
  "digit_groups s =
     (let gs = split_on (CHR ''_'') s
      in if list_all (\<lambda>g. g \<noteq> [] \<and> list_all isdigit g) gs then Some (concat gs) else None)"

definition sign_split :: "string \<Rightarrow> bool \<times> string" where
  \<comment> \<open>an optional sign: whether it is a minus, and the rest\<close>
  "sign_split s =
     (case s of
        [] \<Rightarrow> (False, [])
      | c # r \<Rightarrow> if c = CHR ''-'' then (True, r)
                 else if c = CHR ''+'' then (False, r) else (False, s))"

definition py_int :: "string \<Rightarrow> int option" where
  \<comment> \<open>\<open>int(s)\<close>: None where Python raises ValueError\<close>
  "py_int s =
     (case sign_split (strip_num s) of (neg, r) \<Rightarrow>
        (case digit_groups r of
           None \<Rightarrow> None
         | Some ds \<Rightarrow>
             if int_max_str_digits < length ds then None
             else Some (if neg then - int_of_digits ds else int_of_digits ds)))"

text \<open>
  A float is a binary64: a finite value is kept as the rational number it is, with the
  negative zero apart; \<open>Infinite True\<close> is \<open>-inf\<close>. \<open>float\<close> rounds the decimal it
  reads to the nearest binary64, ties to the even significand, down to the subnormals
  and to zero, and up to an infinity from \<open>2 ^ 1024 - 2 ^ 970\<close> on. The text that
  formatting a float produces is not modelled: it is a parameter \<open>fmt\<close> of the loader.
\<close>

datatype pyfloat = Finite rat | NegZero | Infinite bool | NaN

definition lower :: "char \<Rightarrow> char" where
  "lower c = (if (65::nat) \<le> of_char c \<and> of_char c \<le> (90::nat)
              then char_of (of_char c + (32::nat)) else c)"

definition is_exp_mark :: "char \<Rightarrow> bool" where
  "is_exp_mark c \<longleftrightarrow> c = CHR ''e'' \<or> c = CHR ''E''"

definition opt_digits :: "string \<Rightarrow> string option" where
  "opt_digits s = (if s = [] then Some [] else digit_groups s)"

definition mantissa :: "string \<Rightarrow> (int \<times> nat) option" where
  \<comment> \<open>\<open>digits\<close>, \<open>digits.\<close>, \<open>.digits\<close> or \<open>digits.digits\<close>: the value of all
      the digits, and how many of them follow the point\<close>
  "mantissa m =
     (let ip = takeWhile (\<lambda>c. c \<noteq> CHR ''.'') m;
          fr = dropWhile (\<lambda>c. c \<noteq> CHR ''.'') m
      in if fr = [] then map_option (\<lambda>ds. (int_of_digits ds, 0)) (digit_groups ip)
         else if ip = [] \<and> tl fr = [] then None
         else (case opt_digits ip of
                 None \<Rightarrow> None
               | Some ids \<Rightarrow>
                   (case opt_digits (tl fr) of
                      None \<Rightarrow> None
                    | Some fds \<Rightarrow> Some (int_of_digits (ids @ fds), length fds))))"

definition exponent :: "string \<Rightarrow> int option" where
  \<comment> \<open>nothing, or \<open>e\<close> with an optional sign and digits\<close>
  "exponent r =
     (if r = [] then Some 0
      else (case sign_split (tl r) of (neg, ds) \<Rightarrow>
              map_option (\<lambda>d. if neg then - int_of_digits d else int_of_digits d)
                (digit_groups ds)))"

definition decimal :: "string \<Rightarrow> (int \<times> int) option" where
  \<comment> \<open>an unsigned decimal literal: \<open>(m, e)\<close> for the value \<open>m * 10 ^ e\<close>\<close>
  "decimal r =
     (case mantissa (takeWhile (\<lambda>c. \<not> is_exp_mark c) r) of
        None \<Rightarrow> None
      | Some (m, fl) \<Rightarrow>
          (case exponent (dropWhile (\<lambda>c. \<not> is_exp_mark c) r) of
             None \<Rightarrow> None
           | Some e \<Rightarrow> Some (m, e - int fl)))"

function bitlen :: "int \<Rightarrow> nat" where
  \<comment> \<open>the number of binary digits of a positive number\<close>
  "bitlen n = (if n \<le> 0 then 0 else Suc (bitlen (n div 2)))"
  by pat_completeness auto
termination
proof (relation "measure nat")
  show "wf (measure nat)" by simp
next
  fix n :: int
  assume "\<not> n \<le> 0"
  then have "n div 2 < n" by simp
  with \<open>\<not> n \<le> 0\<close> show "(n div 2, n) \<in> measure nat" by simp
qed

definition pow2 :: "int \<Rightarrow> rat" where
  "pow2 e = (if 0 \<le> e then 2 ^ nat e else 1 / 2 ^ nat (- e))"

definition ilog2 :: "int \<Rightarrow> int \<Rightarrow> int" where
  \<comment> \<open>for \<open>a, b > 0\<close>, the \<open>e\<close> with \<open>2 ^ e \<le> a / b < 2 ^ (e + 1)\<close>\<close>
  "ilog2 a b =
     (let d = int (bitlen a) - int (bitlen b)
      in if (if 0 \<le> d then b * 2 ^ nat d \<le> a else b \<le> a * 2 ^ nat (- d)) then d else d - 1)"

definition round_div :: "int \<Rightarrow> int \<Rightarrow> int" where
  \<comment> \<open>for \<open>n \<ge> 0\<close> and \<open>d > 0\<close>, the integer nearest to \<open>n / d\<close>, the even one at a tie\<close>
  "round_div n d =
     (let f = n div d; r = n mod d
      in if 2 * r < d then f
         else if d < 2 * r then f + 1
         else if even f then f else f + 1)"

definition binary64 :: "bool \<Rightarrow> int \<times> int \<Rightarrow> pyfloat" where
  \<comment> \<open>the binary64 nearest to \<open>m * 10 ^ e\<close> for \<open>m \<ge> 0\<close>, with the sign: the
      significand \<open>s\<close> counts units of \<open>2 ^ (x - 52)\<close>, \<open>x\<close> the binary exponent\<close>
  "binary64 neg me =
     (case me of (m, e) \<Rightarrow>
        (let zero = (if neg then NegZero else Finite 0)
         in if m = 0 then zero
            else (let a = (if 0 \<le> e then m * 10 ^ nat e else m);
                      b = (if 0 \<le> e then 1 else 10 ^ nat (- e));
                      x = max (ilog2 a b) (- 1022)
                  in if 1023 < x then Infinite neg
                     else (let k = 52 - x;
                               s = round_div (if 0 \<le> k then a * 2 ^ nat k else a)
                                     (if 0 \<le> k then b else b * 2 ^ nat (- k))
                           in if s = 0 then zero
                              else if x = 1023 \<and> s = 2 ^ 53 then Infinite neg
                              else Finite ((if neg then - of_int s else of_int s)
                                           * pow2 (x - 52))))))"

definition py_float :: "string \<Rightarrow> pyfloat option" where
  \<comment> \<open>\<open>float(s)\<close>: None where Python raises ValueError\<close>
  "py_float s =
     (case sign_split (strip_num s) of (neg, r) \<Rightarrow>
        (let low = map lower r
         in if low = ''inf'' \<or> low = ''infinity'' then Some (Infinite neg)
            else if low = ''nan'' then Some NaN
            else map_option (binary64 neg) (decimal r)))"

fun digits_of :: "nat \<Rightarrow> string" where
  "digits_of n =
     (if n < 10 then [char_of (48 + n)]
      else digits_of (n div 10) @ [char_of (48 + n mod 10)])"

definition str_int :: "int \<Rightarrow> string" where
  \<comment> \<open>the text of an int in an f-string\<close>
  "str_int i = (if i < 0 then CHR ''-'' # digits_of (nat (- i)) else digits_of (nat i))"

section \<open>ParseIDs\<close>

text \<open>
  The dictionary is a map from the ordinal to the identifier. \<open>enumerate(_, start=1)\<close>
  is the counter \<open>ndx\<close> of the loop. \<open>split('\t')[0]\<close> reads the head of a list that
  is never empty.
\<close>

type_synonym metadata = "int \<rightharpoonup> string"

fun ParseIDs_loop :: "int \<Rightarrow> metadata \<Rightarrow> string list \<Rightarrow> metadata" where
  "ParseIDs_loop ndx metadata [] = metadata"
| "ParseIDs_loop ndx metadata (line # rest) =
     ParseIDs_loop (ndx + 1) (metadata(ndx \<mapsto> hd (split_on TAB (strip line)))) rest"

definition ParseIDs :: "filesystem \<Rightarrow> path \<Rightarrow> error + metadata" where
  "ParseIDs fs mtx_metafile =
     (case fs mtx_metafile of
        None \<Rightarrow> Inl OSError
      | Some lines \<Rightarrow> Inr (ParseIDs_loop 1 Map.empty lines))"

section \<open>StreamMatrixData\<close>

text \<open>
  A generator is the sequence of the values it yields, ended by its return (\<open>Stop\<close>) or by
  the exception it raises. A consumer that fails on a value never resumes the generator.
  The generator yields the list object \<open>row_batch\<close> and clears it when it is resumed;
  a batch is the content of the list at the yield, which is what a consumer that reads it
  before asking for the next one sees (\<open>LoadMTX\<close> does).
\<close>

datatype 'a gen = Yield 'a "'a gen" | Raise error | Stop

fun yields :: "'a gen \<Rightarrow> 'a list" where
  "yields (Yield b g) = b # yields g"
| "yields (Raise e) = []"
| "yields Stop = []"

fun outcome :: "'a gen \<Rightarrow> error option" where
  "outcome (Yield b g) = outcome g"
| "outcome (Raise e) = Some e"
| "outcome Stop = None"

type_synonym triple = "int \<times> int \<times> pyfloat"

definition normalize_row :: "string list \<Rightarrow> error + triple" where
  "normalize_row matrix_row =
     (case matrix_row of
        [] \<Rightarrow> Inl IndexError
      | f0 # r0 \<Rightarrow>
          (case py_int f0 of
             None \<Rightarrow> Inl ValueError
           | Some row \<Rightarrow>
               (case r0 of
                  [] \<Rightarrow> Inl IndexError
                | f1 # r1 \<Rightarrow>
                    (case py_int f1 of
                       None \<Rightarrow> Inl ValueError
                     | Some col \<Rightarrow>
                         (case r1 of
                            [] \<Rightarrow> Inl IndexError
                          | f2 # r2 \<Rightarrow>
                              (case py_float f2 of
                                 None \<Rightarrow> Inl ValueError
                               | Some v \<Rightarrow> Inr (row, col, v)))))))"

fun StreamMatrixData_loop ::
  "int \<Rightarrow> int \<Rightarrow> int \<Rightarrow> triple list \<Rightarrow> string list \<Rightarrow> triple list gen" where
  "StreamMatrixData_loop batch_size ndx batch_stopndx row_batch [] = Yield row_batch Stop"
| "StreamMatrixData_loop batch_size ndx batch_stopndx row_batch (line # rest) =
     (let stripped_line = strip line
      in if startswith stripped_line ''%''
         then StreamMatrixData_loop batch_size (ndx + 1) batch_stopndx row_batch rest
         else
           (let stopndx = (if batch_stopndx = 0 then ndx + (batch_size - 1) else batch_stopndx)
            in if ndx \<ge> stopndx
               then Yield row_batch
                      (case normalize_row (split_on (CHR '' '') stripped_line) of
                         Inl e \<Rightarrow> Raise e
                       | Inr t \<Rightarrow> StreamMatrixData_loop batch_size (ndx + 1) 0 [t] rest)
               else (case normalize_row (split_on (CHR '' '') stripped_line) of
                       Inl e \<Rightarrow> Raise e
                     | Inr t \<Rightarrow>
                         StreamMatrixData_loop batch_size (ndx + 1) stopndx (row_batch @ [t]) rest)))"

definition StreamMatrixData :: "filesystem \<Rightarrow> path \<Rightarrow> int \<Rightarrow> triple list gen" where
  "StreamMatrixData fs mtx_datafile batch_size =
     (case fs mtx_datafile of
        None \<Rightarrow> Raise OSError
      | Some lines \<Rightarrow> StreamMatrixData_loop batch_size 0 0 [] lines)"

section \<open>ExprDB\<close>

text \<open>
  The connection \<open>db_conn\<close> is handed to the constructor of \<open>ExprDB\<close>; its method
  \<open>execute\<close> is a parameter of the model: it takes the SQL text and the state of the
  database and returns the state afterwards and, when it raises, the message of the error.
  The outcome of a method is the state of the database when it ends and the exception
  that ended it, if any. What \<open>print\<close> writes is left out.
\<close>

type_synonym 'db connection = "string \<Rightarrow> 'db \<Rightarrow> 'db \<times> string option"

definition QUOTE :: char where
  "QUOTE = CHR 0x27"

definition quoted :: "string \<Rightarrow> string" where
  "quoted s = QUOTE # s @ [QUOTE]"

definition InsertData ::
  "'db connection \<Rightarrow> string list \<Rightarrow> string \<Rightarrow> 'db \<Rightarrow> 'db \<times> error option" where
  "InsertData execute tuple_list table_name db =
     (case execute ('' INSERT INTO '' @ table_name @ '' VALUES '' @ join '','' tuple_list) db of
        (db', None) \<Rightarrow> (db', None)
      | (db', Some msg) \<Rightarrow> (db', Some (DatabaseError msg)))"

definition InsertExprData ::
  "'db connection \<Rightarrow> string list \<Rightarrow> 'db \<Rightarrow> 'db \<times> error option" where
  "InsertExprData execute expr_tuples db = InsertData execute expr_tuples ''expr'' db"

definition InsertClusterData ::
  "'db connection \<Rightarrow> string list \<Rightarrow> 'db \<Rightarrow> 'db \<times> error option" where
  "InsertClusterData execute cluster_tuples db = InsertData execute cluster_tuples ''clusters'' db"

subsection \<open>LoadMTX\<close>

fun LoadMTX_rows ::
  "(pyfloat \<Rightarrow> string) \<Rightarrow> metadata \<Rightarrow> metadata \<Rightarrow> string list \<Rightarrow> triple list
   \<Rightarrow> error + string list" where
  \<comment> \<open>the inner loop: \<open>row_meta[...]\<close> and \<open>col_meta[...]\<close> raise KeyError\<close>
  "LoadMTX_rows fmt row_meta col_meta tuple_list [] = Inr tuple_list"
| "LoadMTX_rows fmt row_meta col_meta tuple_list (matrix_row # rest) =
     (case row_meta (fst matrix_row) of
        None \<Rightarrow> Inl KeyError
      | Some row_id \<Rightarrow>
          (case col_meta (fst (snd matrix_row)) of
             None \<Rightarrow> Inl KeyError
           | Some col_id \<Rightarrow>
               LoadMTX_rows fmt row_meta col_meta
                 (tuple_list @ [''('' @ quoted row_id @ '', '' @ quoted col_id @ '', ''
                                @ fmt (snd (snd matrix_row)) @ '')''])
                 rest))"

fun LoadMTX_loop ::
  "'db connection \<Rightarrow> (pyfloat \<Rightarrow> string) \<Rightarrow> metadata \<Rightarrow> metadata \<Rightarrow> triple list gen
   \<Rightarrow> 'db \<Rightarrow> 'db \<times> error option" where
  \<comment> \<open>the outer loop, over the batches of the stream\<close>
  "LoadMTX_loop execute fmt row_meta col_meta Stop db = (db, None)"
| "LoadMTX_loop execute fmt row_meta col_meta (Raise e) db = (db, Some e)"
| "LoadMTX_loop execute fmt row_meta col_meta (Yield matrix_batch g) db =
     (case LoadMTX_rows fmt row_meta col_meta [] matrix_batch of
        Inl e \<Rightarrow> (db, Some e)
      | Inr tuple_list \<Rightarrow>
          (case InsertExprData execute tuple_list db of
             (db', None) \<Rightarrow> LoadMTX_loop execute fmt row_meta col_meta g db'
           | (db', Some e) \<Rightarrow> (db', Some e)))"

definition LoadMTX ::
  "'db connection \<Rightarrow> (pyfloat \<Rightarrow> string) \<Rightarrow> filesystem \<Rightarrow> path \<Rightarrow> string \<Rightarrow> 'db
   \<Rightarrow> 'db \<times> error option" where
  "LoadMTX execute fmt fs mtx_dirpath mtx_basename db =
     (let filepath_prefix = mtx_basename @ ''.aggregated_filtered_counts''
      in case ParseIDs fs (path_join mtx_dirpath (filepath_prefix @ ''.mtx_cols'')) of
           Inl e \<Rightarrow> (db, Some e)
         | Inr col_meta \<Rightarrow>
             (case ParseIDs fs (path_join mtx_dirpath (filepath_prefix @ ''.mtx_rows'')) of
                Inl e \<Rightarrow> (db, Some e)
              | Inr row_meta \<Rightarrow>
                  LoadMTX_loop execute fmt row_meta col_meta
                    (StreamMatrixData fs
                       (path_join mtx_dirpath (filepath_prefix @ ''_matrix.mtx'')) 1024)
                    db))"

subsection \<open>LoadClusters\<close>

fun LoadClusters_loop :: "string \<Rightarrow> string list \<Rightarrow> string list \<Rightarrow> error + string list" where
  \<comment> \<open>unpacking into three names and \<open>int\<close> raise ValueError\<close>
  "LoadClusters_loop name cluster_tuples [] = Inr cluster_tuples"
| "LoadClusters_loop name cluster_tuples (line # rest) =
     (case split_on TAB (strip line) of
        [mcluster_id, dcluster_id, cell_id] \<Rightarrow>
          (case py_int (strip mcluster_id) of
             None \<Rightarrow> Inl ValueError
           | Some m \<Rightarrow>
               (case py_int (strip dcluster_id) of
                  None \<Rightarrow> Inl ValueError
                | Some d \<Rightarrow>
                    LoadClusters_loop name
                      (cluster_tuples @
                         [''('' @ ''  '' @ str_int m @ '' ,'' @ str_int d
                          @ '' ,'' @ quoted (strip cell_id) @ '' ,'' @ quoted name @ '')''])
                      rest))
      | _ \<Rightarrow> Inl ValueError)"

definition LoadClusters ::
  "'db connection \<Rightarrow> filesystem \<Rightarrow> path \<Rightarrow> string \<Rightarrow> 'db \<Rightarrow> 'db \<times> error option" where
  "LoadClusters execute fs dir_path file_name db =
     (case fs (path_join dir_path file_name) of
        None \<Rightarrow> (db, Some OSError)
      | Some lines \<Rightarrow>
          (case LoadClusters_loop (path_name dir_path) [] lines of
             Inl e \<Rightarrow> (db, Some e)
           | Inr cluster_tuples \<Rightarrow> InsertClusterData execute cluster_tuples db))"

subsection \<open>A connection for concrete runs\<close>

text \<open>
  The state is the list of the statements accepted so far. As the engine's SQL grammar
  does, it rejects an INSERT whose VALUES keyword is followed by no tuple, and leaves the
  state as it was.
\<close>

definition endswith :: "string \<Rightarrow> string \<Rightarrow> bool" where
  "endswith s p \<longleftrightarrow> startswith (rev s) (rev p)"

definition log_execute :: "string list connection" where
  "log_execute sql db =
     (if endswith sql ''VALUES '' then (db, Some ''Parser Error: syntax error at end of input'')
      else (db @ [sql], None))"

section \<open>Notions the statements use\<close>

text \<open>
  The two tests the loop of \<open>StreamMatrixData\<close> makes on a line, under names: whether
  it is skipped as a comment, and what parsing it gives. The data lines of a file are the
  lines that are not comments, in file order.
\<close>

definition is_comment :: "string \<Rightarrow> bool" where
  "is_comment line \<longleftrightarrow> startswith (strip line) ''%''"

definition parse_line :: "string \<Rightarrow> error + triple" where
  "parse_line line = normalize_row (split_on (CHR '' '') (strip line))"

definition data_lines :: "string list \<Rightarrow> string list" where
  "data_lines lines = filter (\<lambda>l. \<not> is_comment l) lines"

text \<open>
  A row is accepted when it has at least three fields, of which the first two are read by
  \<open>int\<close> and the third by \<open>float\<close>; \<open>normalize\<close> never looks at a fourth field.
\<close>

definition well_formed_row :: "string list \<Rightarrow> bool" where
  "well_formed_row fields \<longleftrightarrow>
     3 \<le> length fields \<and> py_int (fields ! 0) \<noteq> None \<and> py_int (fields ! 1) \<noteq> None
     \<and> py_float (fields ! 2) \<noteq> None"

definition good_line :: "string \<Rightarrow> bool" where
  "good_line l \<longleftrightarrow> well_formed_row (split_on (CHR '' '') (strip l))"

text \<open>
  The three files \<open>LoadMTX\<close> opens; whether a triple has an ordinal that one of the
  two indexes lacks; the text of the record a triple resolves to; the bulk inserts of a
  list of batches, one after the other, up to the first that the connection rejects.
\<close>

definition mtx_cols_file :: "path \<Rightarrow> string \<Rightarrow> path" where
  "mtx_cols_file dir base = path_join dir ((base @ ''.aggregated_filtered_counts'') @ ''.mtx_cols'')"

definition mtx_rows_file :: "path \<Rightarrow> string \<Rightarrow> path" where
  "mtx_rows_file dir base = path_join dir ((base @ ''.aggregated_filtered_counts'') @ ''.mtx_rows'')"

definition mtx_data_file :: "path \<Rightarrow> string \<Rightarrow> path" where
  "mtx_data_file dir base = path_join dir ((base @ ''.aggregated_filtered_counts'') @ ''_matrix.mtx'')"

definition absent :: "metadata \<Rightarrow> metadata \<Rightarrow> triple \<Rightarrow> bool" where
  "absent row_meta col_meta t \<longleftrightarrow> row_meta (fst t) = None \<or> col_meta (fst (snd t)) = None"

definition record_text :: "(pyfloat \<Rightarrow> string) \<Rightarrow> metadata \<Rightarrow> metadata \<Rightarrow> triple \<Rightarrow> string" where
  "record_text fmt row_meta col_meta t =
     ''('' @ quoted (the (row_meta (fst t))) @ '', '' @ quoted (the (col_meta (fst (snd t))))
     @ '', '' @ fmt (snd (snd t)) @ '')''"

fun insert_all :: "'db connection \<Rightarrow> string list list \<Rightarrow> 'db \<Rightarrow> 'db \<times> error option" where
  "insert_all execute [] db = (db, None)"
| "insert_all execute (ts # rest) db =
     (case InsertExprData execute ts db of
        (db', None) \<Rightarrow> insert_all execute rest db'
      | (db', Some e) \<Rightarrow> (db', Some e))"

subsection \<open>Concrete files\<close>

text \<open>
  \<open>plain_fmt\<close> stands for the formatting of a float in the concrete runs, where the
  text of the value plays no role.
\<close>

definition plain_fmt :: "pyfloat \<Rightarrow> string" where
  "plain_fmt v = ''<float>''"

definition sample_path :: path where
  "sample_path = [''data'', ''ds.aggregated_filtered_counts_matrix.mtx'']"

definition header_line :: string where
  "header_line = ''%%MatrixMarket matrix coordinate real general\<newline>''"

definition three_rows :: "string list" where
  "three_rows = [''1 1 1.0\<newline>'', ''2 2 2.0\<newline>'', ''3 3 3.0\<newline>'']"

definition four_rows :: "string list" where
  "four_rows = [''1 1 1.0\<newline>'', ''2 2 2.0\<newline>'', ''3 3 3.0\<newline>'', ''4 4 4.0\<newline>'']"

definition four_rows_commented :: "string list" where
  "four_rows_commented =
     [''1 1 1.0\<newline>'', ''% a remark\<newline>'', ''2 2 2.0\<newline>'', ''3 3 3.0\<newline>'',
      ''4 4 4.0\<newline>'']"

definition broken_rows :: "string list" where
  "broken_rows = [''1 2 0.5\<newline>'', ''1 2\<newline>'', ''3 3 1.0\<newline>'']"

definition nonnumeric_rows :: "string list" where
  "nonnumeric_rows = [''1 2 0.5\<newline>'', ''1 x 0.5\<newline>'', ''3 3 1.0\<newline>'']"

definition separator_rows :: "string list" where
  \<comment> \<open>U+001C after the row ordinal: \<open>strip\<close> would remove it, \<open>int\<close> refuses it\<close>
  "separator_rows = [''1'' @ [CHR 0x1C] @ '' 2 0.5\<newline>'']"

definition two_entries :: "string list" where
  "two_entries = [''1 2 0.5\<newline>'', ''2 3 1.25\<newline>'']"

definition long_rows :: "string list" where
  "long_rows = ''1 1 0.5\<newline>'' # replicate 1022 ''1 1 0.5\<newline>''
               @ [''1 1 0.5\<newline>'', ''3 1 2.0\<newline>'']"

definition row_index :: metadata where
  "row_index = ParseIDs_loop 1 Map.empty [''g1\<newline>'', ''g2\<newline>'']"

definition col_index :: metadata where
  "col_index = ParseIDs_loop 1 Map.empty [''c1\<newline>'', ''c2\<newline>'', ''c3\<newline>'']"

definition meta_path :: path where
  "meta_path = [''data'', ''ds.aggregated_filtered_counts.mtx_rows'']"

definition meta_lines :: "string list" where
  "meta_lines = [''g1'' @ [TAB] @ ''BRCA1\<newline>'', ''  g2  \<newline>'']"

definition mtx_fs :: "string list \<Rightarrow> filesystem" where
  "mtx_fs matrix_lines =
     [mtx_cols_file [''data''] ''ds'' \<mapsto> [''c1\<newline>'', ''c2\<newline>'', ''c3\<newline>''],
      mtx_rows_file [''data''] ''ds'' \<mapsto> [''g1\<newline>'', ''g2\<newline>''],
      mtx_data_file [''data''] ''ds'' \<mapsto> matrix_lines]"

definition cluster_dir :: path where
  "cluster_dir = [''resources'', ''datasetX'']"

definition cluster_lines :: "string list" where
  "cluster_lines = [''1'' @ [TAB] @ ''10'' @ [TAB] @ ''cellA\<newline>'',
                    ''1'' @ [TAB] @ ''11'' @ [TAB] @ ''cellB\<newline>'']"

section \<open>Lemmas\<close>

declare digits_of.simps [simp del]

declare bitlen.simps [simp del]

subsection \<open>Strings and the identifier index\<close>

lemma split_on_not_Nil: "split_on sep s \<noteq> []"
  by (induction s) (auto split: list.splits)

lemma hd_split_on: "hd (split_on sep s) = takeWhile (\<lambda>c. c \<noteq> sep) s"
  by (induction s) (auto split: list.splits simp: split_on_not_Nil)

lemma is_comment_first_char:
  "is_comment line \<longleftrightarrow>
     (case dropWhile isspace line of [] \<Rightarrow> False | c # r \<Rightarrow> c = CHR ''%'')"
proof (cases "dropWhile isspace line")
  case Nil
  show ?thesis
    unfolding is_comment_def strip_def startswith_def Nil by simp
next
  case (Cons c r)
  then have "\<not> isspace c"
    by (metis hd_dropWhile list.sel(1) list.distinct(1))
  then obtain x where "dropWhile isspace (rev r @ [c]) = x @ [c]"
    by (simp add: dropWhile_append3)
  then show ?thesis
    unfolding is_comment_def strip_def startswith_def Cons by simp
qed

lemma ParseIDs_loop_lookup:
  "ParseIDs_loop ndx m ls k =
     (if ndx \<le> k \<and> k < ndx + int (length ls)
      then Some (hd (split_on TAB (strip (ls ! nat (k - ndx))))) else m k)"
proof (induction ls arbitrary: ndx m)
  case Nil
  then show ?case by auto
next
  case (Cons l ls)
  have "nat (k - ndx) = Suc (nat (k - (ndx + 1)))" if "ndx < k"
    using that by simp
  then show ?case
    by (auto simp: Cons.IH)
qed

subsection \<open>Parsing a row\<close>

lemma normalize_ok_iff: "\<not> isl (normalize_row fields) \<longleftrightarrow> well_formed_row fields"
proof (cases fields)
  case Nil
  then show ?thesis by (simp add: normalize_row_def well_formed_row_def)
next
  case c1: (Cons f0 r0)
  show ?thesis
  proof (cases r0)
    case Nil
    with c1 show ?thesis
      by (simp add: normalize_row_def well_formed_row_def split: option.splits)
  next
    case c2: (Cons f1 r1)
    show ?thesis
    proof (cases r1)
      case Nil
      with c1 c2 show ?thesis
        by (simp add: normalize_row_def well_formed_row_def split: option.splits)
    next
      case (Cons f2 r2)
      with c1 c2 show ?thesis
        by (auto simp: normalize_row_def well_formed_row_def split: option.splits)
    qed
  qed
qed

lemma normalize_error_kind: "normalize_row fields = Inl e \<Longrightarrow> e = ValueError \<or> e = IndexError"
  by (auto simp: normalize_row_def split: list.splits option.splits)

lemma good_line_parse: "good_line l \<longleftrightarrow> \<not> isl (parse_line l)"
  by (simp add: good_line_def parse_line_def normalize_ok_iff)

subsection \<open>The loop of the stream\<close>

lemma stream_all_parsed:
  "\<forall>l \<in> set (data_lines ls). \<not> isl (parse_line l) \<Longrightarrow>
   outcome (StreamMatrixData_loop N ndx stop batch ls) = None \<and>
   concat (yields (StreamMatrixData_loop N ndx stop batch ls))
     = batch @ map (projr \<circ> parse_line) (data_lines ls)"
proof (induction ls arbitrary: ndx stop batch)
  case Nil
  then show ?case by (simp add: data_lines_def)
next
  case (Cons l ls)
  show ?case
  proof (cases "is_comment l")
    case True
    with Cons show ?thesis
      by (simp add: data_lines_def is_comment_def)
  next
    case False
    with Cons.prems obtain t where t: "parse_line l = Inr t"
      by (cases "parse_line l") (auto simp: data_lines_def)
    from Cons.prems have rest: "\<forall>l \<in> set (data_lines ls). \<not> isl (parse_line l)"
      by (simp add: data_lines_def)
    from False t Cons.IH [OF rest] show ?thesis
      by (simp add: data_lines_def is_comment_def parse_line_def Let_def)
  qed
qed

lemma stream_outcome_iff:
  "outcome (StreamMatrixData_loop N ndx stop batch ls) = None
   \<longleftrightarrow> (\<forall>l \<in> set (data_lines ls). good_line l)"
proof (induction ls arbitrary: ndx stop batch)
  case Nil
  then show ?case by (simp add: data_lines_def)
next
  case (Cons l ls)
  show ?case
  proof (cases "is_comment l")
    case True
    with Cons show ?thesis
      by (simp add: data_lines_def is_comment_def)
  next
    case False
    show ?thesis
    proof (cases "parse_line l")
      case (Inl e)
      with False show ?thesis
        by (simp add: data_lines_def is_comment_def parse_line_def Let_def good_line_def
            flip: normalize_ok_iff)
    next
      case (Inr t)
      with False Cons.IH show ?thesis
        by (simp add: data_lines_def is_comment_def parse_line_def Let_def good_line_def
            flip: normalize_ok_iff)
    qed
  qed
qed

lemma stream_outcome_first_bad:
  "outcome (StreamMatrixData_loop N ndx stop batch ls)
   = (case dropWhile good_line (data_lines ls) of
        [] \<Rightarrow> None
      | bad # rest \<Rightarrow> Some (projl (parse_line bad)))"
proof (induction ls arbitrary: ndx stop batch)
  case Nil
  then show ?case by (simp add: data_lines_def)
next
  case (Cons l ls)
  show ?case
  proof (cases "is_comment l")
    case True
    with Cons show ?thesis
      by (simp add: data_lines_def is_comment_def)
  next
    case False
    show ?thesis
    proof (cases "parse_line l")
      case (Inl e)
      then have "\<not> good_line l" by (simp add: good_line_parse)
      with False Inl show ?thesis
        by (simp add: data_lines_def is_comment_def parse_line_def Let_def)
    next
      case (Inr t)
      then have "good_line l" by (simp add: good_line_parse)
      with False Inr Cons.IH show ?thesis
        by (simp add: data_lines_def is_comment_def parse_line_def Let_def)
    qed
  qed
qed

lemma stream_outcome_kind:
  "outcome (StreamMatrixData_loop N ndx stop batch ls) = Some e
   \<Longrightarrow> e = ValueError \<or> e = IndexError"
proof (induction ls arbitrary: ndx stop batch)
  case Nil
  then show ?case by simp
next
  case (Cons l ls)
  then show ?case
    by (auto simp: Let_def split: if_splits sum.splits dest: normalize_error_kind)
qed

lemma stream_prefix:
  "prefix (concat (yields (StreamMatrixData_loop N ndx stop batch ls)))
     (batch @ map (projr \<circ> parse_line) (takeWhile good_line (data_lines ls)))"
proof (induction ls arbitrary: ndx stop batch)
  case Nil
  then show ?case by (simp add: data_lines_def)
next
  case (Cons l ls)
  show ?case
  proof (cases "is_comment l")
    case True
    with Cons show ?thesis
      by (simp add: data_lines_def is_comment_def)
  next
    case False
    show ?thesis
    proof (cases "parse_line l")
      case (Inl e)
      then have "\<not> good_line l" by (simp add: good_line_parse)
      with False Inl show ?thesis
        by (simp add: data_lines_def is_comment_def parse_line_def Let_def)
    next
      case (Inr t)
      then have "good_line l" by (simp add: good_line_parse)
      with False Inr Cons.IH [of "ndx + 1" 0 "[t]"]
        Cons.IH [of "ndx + 1" _ "batch @ [t]"]
      show ?thesis
        by (simp add: data_lines_def is_comment_def parse_line_def Let_def)
    qed
  qed
qed

lemma stream_no_data:
  "data_lines ls = [] \<Longrightarrow> StreamMatrixData_loop N ndx stop batch ls = Yield batch Stop"
proof (induction ls arbitrary: ndx stop)
  case Nil
  then show ?case by simp
next
  case (Cons l ls)
  then show ?case
    by (simp add: data_lines_def is_comment_def split: if_splits)
qed

lemma stream_replicate:
  "parse_line l = Inr t \<Longrightarrow> \<not> is_comment l \<Longrightarrow> stop \<noteq> 0 \<Longrightarrow> ndx + int n \<le> stop \<Longrightarrow>
   StreamMatrixData_loop N ndx stop batch (replicate n l @ rest)
     = StreamMatrixData_loop N (ndx + int n) stop (batch @ replicate n t) rest"
proof (induction n arbitrary: ndx batch)
  case 0
  then show ?case by simp
next
  case (Suc n)
  from Suc.prems have "ndx + 1 + int n \<le> stop" by simp
  from Suc.IH [OF Suc.prems(1-3) this, of "batch @ [t]"] Suc.prems
  show ?case
    by (simp add: is_comment_def parse_line_def Let_def replicate_app_Cons_same add.assoc)
qed

lemma long_rows_stream:
  "StreamMatrixData_loop 1024 0 0 [] long_rows
     = Yield ((1, 1, Finite (1 / 2)) # replicate 1022 (1, 1, Finite (1 / 2)))
         (Yield [(1, 1, Finite (1 / 2)), (3, 1, Finite 2)] Stop)"
proof -
  let ?l = "''1 1 0.5\<newline>''" and ?b = "''3 1 2.0\<newline>''"
  let ?t = "(1, 1, Finite (1 / 2)) :: triple" and ?u = "(3, 1, Finite 2) :: triple"
  have p: "parse_line ?l = Inr ?t" by code_simp
  have c: "\<not> is_comment ?l" by code_simp
  have q: "parse_line ?b = Inr ?u" by code_simp
  have d: "\<not> is_comment ?b" by code_simp
  note short = p [unfolded parse_line_def] c [unfolded is_comment_def]
    q [unfolded parse_line_def] d [unfolded is_comment_def]
  have "StreamMatrixData_loop 1024 0 0 [] long_rows
        = StreamMatrixData_loop 1024 1 1023 [?t] (replicate 1022 ?l @ [?l, ?b])"
    unfolding long_rows_def StreamMatrixData_loop.simps Let_def by (simp only: short) simp
  also have "\<dots> = StreamMatrixData_loop 1024 (1 + int 1022) 1023 ([?t] @ replicate 1022 ?t) [?l, ?b]"
    by (rule stream_replicate [OF p c]) simp_all
  also have "\<dots> = Yield (?t # replicate 1022 ?t) (StreamMatrixData_loop 1024 1024 0 [?t] [?b])"
    unfolding StreamMatrixData_loop.simps Let_def by (simp only: short) simp
  also have "StreamMatrixData_loop 1024 1024 0 [?t] [?b] = Yield [?t, ?u] Stop"
    unfolding StreamMatrixData_loop.simps Let_def by (simp only: short) simp
  finally show ?thesis .
qed

subsection \<open>The loops of the loader\<close>

lemma last_join_replicate:
  "r \<noteq> [] \<Longrightarrow> last (pre @ join sep (replicate (Suc n) r)) = last r"
proof (induction n)
  case 0
  then show ?case by simp
next
  case (Suc n)
  have "join sep (replicate (Suc (Suc n)) r) = r @ sep @ join sep (replicate (Suc n) r)"
    by simp
  moreover have "join sep (replicate (Suc n) r) \<noteq> []"
    using Suc.prems by (cases n) simp_all
  ultimately show ?case
    using Suc.IH [OF Suc.prems] by (simp del: join.simps replicate.simps)
qed

lemma not_endswith_VALUES:
  "s \<noteq> [] \<Longrightarrow> last s \<noteq> CHR '' '' \<Longrightarrow> \<not> endswith s ''VALUES ''"
proof
  assume s: "s \<noteq> []" "last s \<noteq> CHR '' ''" and e: "endswith s ''VALUES ''"
  from s(1) obtain c r where r: "rev s = c # r"
    by (cases "rev s") simp_all
  with s(1) have "last s = c"
    by (metis last_rev list.sel(1) rev_rev_ident hd_rev)
  with e r s(2) show False
    by (simp add: endswith_def startswith_def)
qed

lemma LoadMTX_files:
  "fs (mtx_cols_file dir base) = Some cl \<Longrightarrow> fs (mtx_rows_file dir base) = Some rl \<Longrightarrow>
   LoadMTX execute fmt fs dir base db =
     LoadMTX_loop execute fmt (ParseIDs_loop 1 Map.empty rl) (ParseIDs_loop 1 Map.empty cl)
       (StreamMatrixData fs (mtx_data_file dir base) 1024) db"
  by (simp add: LoadMTX_def ParseIDs_def mtx_cols_file_def mtx_rows_file_def mtx_data_file_def)

lemma LoadMTX_rows_KeyError:
  "\<exists>t \<in> set b. absent rm cm t \<Longrightarrow> LoadMTX_rows fmt rm cm acc b = Inl KeyError"
  by (induction b arbitrary: acc) (auto simp: absent_def split: option.splits)

lemma LoadMTX_rows_ok:
  "\<forall>t \<in> set b. \<not> absent rm cm t \<Longrightarrow>
   LoadMTX_rows fmt rm cm acc b = Inr (acc @ map (record_text fmt rm cm) b)"
  by (induction b arbitrary: acc) (auto simp: absent_def record_text_def split: option.splits)

lemma LoadMTX_loop_KeyError:
  "k < length (yields g) \<Longrightarrow>
   \<forall>j < k. \<forall>t \<in> set (yields g ! j). \<not> absent rm cm t \<Longrightarrow>
   \<exists>t \<in> set (yields g ! k). absent rm cm t \<Longrightarrow>
   insert_all execute (map (map (record_text fmt rm cm)) (take k (yields g))) db = (db', None) \<Longrightarrow>
   LoadMTX_loop execute fmt rm cm g db = (db', Some KeyError)"
proof (induction g arbitrary: k db)
  case (Yield b g)
  show ?case
  proof (cases k)
    case 0
    with Yield.prems show ?thesis
      by (simp add: LoadMTX_rows_KeyError)
  next
    case (Suc n)
    from Yield.prems(2) Suc have b: "\<forall>t \<in> set b. \<not> absent rm cm t"
      by fastforce
    from Yield.prems(2) Suc
    have earlier: "\<forall>j < n. \<forall>t \<in> set (yields g ! j). \<not> absent rm cm t"
      by fastforce
    from Yield.prems(4) Suc obtain db1 where
      first: "InsertExprData execute (map (record_text fmt rm cm) b) db = (db1, None)" and
      rest: "insert_all execute (map (map (record_text fmt rm cm)) (take n (yields g))) db1
             = (db', None)"
      by (auto split: prod.splits option.splits)
    from Yield.prems Suc have "n < length (yields g)"
      and "\<exists>t \<in> set (yields g ! n). absent rm cm t"
      by simp_all
    from Yield.IH [OF this(1) earlier this(2) rest] b first show ?thesis
      by (simp add: LoadMTX_rows_ok)
  qed
qed simp_all

section \<open>The claims\<close>

text \<open>
  C1. For a matrix file whose data lines are all accepted and a batch size of at least 1,
  the stream ends without an exception, the triples of its batches, concatenated in the
  order of emission, are the parsed triples of the data lines in file order (none
  duplicated, none dropped), and the batches hold as many triples as the file has data
  lines.
\<close>

theorem StreamMatrixData_covers:
  assumes "fs mtx_datafile = Some lines"
    and "1 \<le> batch_size"
    and "\<forall>l \<in> set (data_lines lines). good_line l"
  shows "outcome (StreamMatrixData fs mtx_datafile batch_size) = None
    \<and> concat (yields (StreamMatrixData fs mtx_datafile batch_size))
        = map (projr \<circ> parse_line) (data_lines lines)
    \<and> sum_list (map length (yields (StreamMatrixData fs mtx_datafile batch_size)))
        = length (data_lines lines)"
proof -
  from assms(3) have ok: "\<forall>l \<in> set (data_lines lines). \<not> isl (parse_line l)"
    by (simp add: good_line_parse)
  have g: "StreamMatrixData fs mtx_datafile batch_size
           = StreamMatrixData_loop batch_size 0 0 [] lines"
    using assms(1) by (simp add: StreamMatrixData_def)
  from stream_all_parsed [OF ok, of batch_size 0 0 "[]"]
  have 1: "outcome (StreamMatrixData fs mtx_datafile batch_size) = None"
    and 2: "concat (yields (StreamMatrixData fs mtx_datafile batch_size))
            = map (projr \<circ> parse_line) (data_lines lines)"
    by (simp_all add: g)
  have "sum_list (map length (yields (StreamMatrixData fs mtx_datafile batch_size)))
        = length (concat (yields (StreamMatrixData fs mtx_datafile batch_size)))"
    by (simp add: length_concat)
  with 1 2 show ?thesis by simp
qed

theorem StreamMatrixData_covers_witness:
  "[sample_path \<mapsto> header_line # three_rows] sample_path = Some (header_line # three_rows)
   \<and> list_all good_line (data_lines (header_line # three_rows))
   \<and> concat (yields (StreamMatrixData [sample_path \<mapsto> header_line # three_rows] sample_path 2))
       = [(1, 1, Finite 1), (2, 2, Finite 2), (3, 3, Finite 3)]
   \<and> sum_list (map length
         (yields (StreamMatrixData [sample_path \<mapsto> header_line # three_rows] sample_path 2)))
       = 3"
proof -
  have h1: "[sample_path \<mapsto> header_line # three_rows] sample_path
            = Some (header_line # three_rows)"
    by simp
  have h2: "(1::int) \<le> 2" by simp
  have h3: "\<forall>l \<in> set (data_lines (header_line # three_rows)). good_line l"
    by code_simp
  have v: "map (projr \<circ> parse_line) (data_lines (header_line # three_rows))
           = [(1, 1, Finite 1), (2, 2, Finite 2), (3, 3, Finite 3)]"
    by code_simp
  have n: "length (data_lines (header_line # three_rows)) = 3"
    by code_simp
  from StreamMatrixData_covers
         [of "[sample_path \<mapsto> header_line # three_rows]" sample_path
             "header_line # three_rows" 2, OF h1 h2 h3]
       h1 h3 v n
  show ?thesis
    by (simp add: list_all_iff)
qed

text \<open>
  C2. The claim is that every batch but the last holds exactly \<open>batch_size\<close> triples.
  The loop tests \<open>ndx >= batch_stopndx\<close> before it appends the row at that index, so the
  first batch closes one row early: with a batch size of 2 and three data lines the
  batches are of sizes 1 and 2.
\<close>

theorem StreamMatrixData_first_batch_short:
  "yields (StreamMatrixData [sample_path \<mapsto> three_rows] sample_path 2)
     = [[(1, 1, Finite 1)], [(2, 2, Finite 2), (3, 3, Finite 3)]]"
  by code_simp

text \<open>
  C3, as stated, fails: for a matrix file with no data line the stream yields one empty
  batch, and \<open>LoadMTX\<close> still executes an INSERT, with no tuple after VALUES; a
  connection that rejects that statement makes the load raise.
\<close>

theorem LoadMTX_empty_matrix_raises:
  "data_lines [header_line] = []
   \<and> LoadMTX log_execute plain_fmt (mtx_fs [header_line]) [''data''] ''ds'' []
       = ([], Some (DatabaseError ''Parser Error: syntax error at end of input''))"
  by code_simp

text \<open>
  C3, amended. For a matrix file with no data line (empty, or comments only) the stream
  yields exactly one empty batch, whatever the batch size, and \<open>LoadMTX\<close> executes
  exactly one statement, the INSERT into \<open>expr\<close> with no tuple after VALUES: it inserts
  no record of its own, and it ends as the connection ends on that statement, with a
  database error when the connection rejects it.
\<close>

theorem LoadMTX_empty_matrix:
  assumes "fs (mtx_cols_file dir base) = Some cl"
    and "fs (mtx_rows_file dir base) = Some rl"
    and "fs (mtx_data_file dir base) = Some lines"
    and "data_lines lines = []"
  shows "StreamMatrixData fs (mtx_data_file dir base) batch_size = Yield [] Stop
     \<and> LoadMTX execute fmt fs dir base db
         = (case execute '' INSERT INTO expr VALUES '' db of
              (db', None) \<Rightarrow> (db', None)
            | (db', Some msg) \<Rightarrow> (db', Some (DatabaseError msg)))"
proof -
  have g: "StreamMatrixData fs (mtx_data_file dir base) n = Yield [] Stop" for n
    using assms(3,4) by (simp add: StreamMatrixData_def stream_no_data)
  have "LoadMTX execute fmt fs dir base db = InsertData execute [] ''expr'' db"
    unfolding LoadMTX_files [OF assms(1,2)] g
    by (simp add: InsertExprData_def split: prod.splits option.splits)
  with g [of batch_size] show ?thesis
    by (simp add: InsertData_def)
qed

theorem LoadMTX_empty_matrix_witness:
  "mtx_fs [header_line] (mtx_data_file [''data''] ''ds'') = Some [header_line]
   \<and> data_lines [header_line] = []
   \<and> StreamMatrixData (mtx_fs [header_line]) (mtx_data_file [''data''] ''ds'') 1024 = Yield [] Stop
   \<and> log_execute '' INSERT INTO expr VALUES '' []
       = ([], Some ''Parser Error: syntax error at end of input'')
   \<and> LoadMTX log_execute plain_fmt (mtx_fs [header_line]) [''data''] ''ds'' []
       = ([], Some (DatabaseError ''Parser Error: syntax error at end of input''))"
proof -
  have c: "mtx_fs [header_line] (mtx_cols_file [''data''] ''ds'')
           = Some [''c1\<newline>'', ''c2\<newline>'', ''c3\<newline>'']"
    by code_simp
  have r: "mtx_fs [header_line] (mtx_rows_file [''data''] ''ds'')
           = Some [''g1\<newline>'', ''g2\<newline>'']"
    by code_simp
  have d: "mtx_fs [header_line] (mtx_data_file [''data''] ''ds'') = Some [header_line]"
    by code_simp
  have e: "data_lines [header_line] = []"
    by code_simp
  have x: "log_execute '' INSERT INTO expr VALUES '' []
           = ([], Some ''Parser Error: syntax error at end of input'')"
    by code_simp
  from LoadMTX_empty_matrix [of "mtx_fs [header_line]" "[''data'']" "''ds''" _ _ "[header_line]"
         1024 log_execute plain_fmt "[]", OF c r d e] d e x
  show ?thesis
    by simp
qed

text \<open>
  C4. The claim is that comment lines do not change the batches. They never become
  triples, but \<open>ndx\<close> counts every line of the file, so a comment line between data
  lines moves the batch boundary: with a batch size of 3, four data lines come in batches
  of sizes 2 and 2, and the same lines with a comment after the first come in batches of
  sizes 1 and 3.
\<close>

theorem StreamMatrixData_comment_shifts_batches:
  "data_lines four_rows_commented = four_rows
   \<and> yields (StreamMatrixData [sample_path \<mapsto> four_rows] sample_path 3)
       = [[(1, 1, Finite 1), (2, 2, Finite 2)], [(3, 3, Finite 3), (4, 4, Finite 4)]]
   \<and> yields (StreamMatrixData [sample_path \<mapsto> four_rows_commented] sample_path 3)
       = [[(1, 1, Finite 1)], [(2, 2, Finite 2), (3, 3, Finite 3), (4, 4, Finite 4)]]"
  by code_simp

text \<open>
  C5. With a column index file of lines c1, c2, c3, a row index file of lines g1, g2 and
  a matrix file of lines \<open>1 2 0.5\<close> and \<open>2 3 1.25\<close>, \<open>LoadMTX\<close> issues one bulk
  insert of exactly the records (g1, c2, 0.5) and (g2, c3, 1.25), in that order: the gene
  identifier comes from the row index, the cell identifier from the column index.
\<close>

theorem LoadMTX_roundtrip:
  assumes "fs (mtx_cols_file dir base) = Some [''c1\<newline>'', ''c2\<newline>'', ''c3\<newline>'']"
    and "fs (mtx_rows_file dir base) = Some [''g1\<newline>'', ''g2\<newline>'']"
    and "fs (mtx_data_file dir base) = Some [''1 2 0.5\<newline>'', ''2 3 1.25\<newline>'']"
  shows "LoadMTX execute fmt fs dir base db
     = InsertExprData execute
         [''('' @ quoted ''g1'' @ '', '' @ quoted ''c2'' @ '', '' @ fmt (Finite (1 / 2)) @ '')'',
          ''('' @ quoted ''g2'' @ '', '' @ quoted ''c3'' @ '', '' @ fmt (Finite (5 / 4)) @ '')'']
         db"
proof -
  have g: "StreamMatrixData_loop 1024 0 0 [] [''1 2 0.5\<newline>'', ''2 3 1.25\<newline>'']
           = Yield [(1, 2, Finite (1 / 2)), (2, 3, Finite (5 / 4))] Stop"
    by code_simp
  have r1: "ParseIDs_loop 1 Map.empty [''g1\<newline>'', ''g2\<newline>''] 1 = Some ''g1''"
    by code_simp
  have r2: "ParseIDs_loop 1 Map.empty [''g1\<newline>'', ''g2\<newline>''] 2 = Some ''g2''"
    by code_simp
  have c2: "ParseIDs_loop 1 Map.empty [''c1\<newline>'', ''c2\<newline>'', ''c3\<newline>''] 2 = Some ''c2''"
    by code_simp
  have c3: "ParseIDs_loop 1 Map.empty [''c1\<newline>'', ''c2\<newline>'', ''c3\<newline>''] 3 = Some ''c3''"
    by code_simp
  have s: "StreamMatrixData fs (mtx_data_file dir base) 1024
           = Yield [(1, 2, Finite (1 / 2)), (2, 3, Finite (5 / 4))] Stop"
    using assms(3) g by (simp add: StreamMatrixData_def)
  show ?thesis
    unfolding LoadMTX_files [OF assms(1,2)] s
    by (simp add: r1 r2 c2 c3 del: ParseIDs_loop.simps split: prod.splits option.splits)
qed

theorem LoadMTX_roundtrip_witness:
  "mtx_fs two_entries (mtx_data_file [''data''] ''ds'') = Some two_entries
   \<and> LoadMTX log_execute plain_fmt (mtx_fs two_entries) [''data''] ''ds'' []
       = ([('' INSERT INTO expr VALUES ('' @ quoted ''g1'' @ '', '' @ quoted ''c2''
             @ '', <float>),('' @ quoted ''g2'' @ '', '' @ quoted ''c3'' @ '', <float>)'')], None)"
proof -
  have c: "mtx_fs two_entries (mtx_cols_file [''data''] ''ds'')
           = Some [''c1\<newline>'', ''c2\<newline>'', ''c3\<newline>'']"
    by code_simp
  have r: "mtx_fs two_entries (mtx_rows_file [''data''] ''ds'')
           = Some [''g1\<newline>'', ''g2\<newline>'']"
    by code_simp
  have d: "mtx_fs two_entries (mtx_data_file [''data''] ''ds'')
           = Some [''1 2 0.5\<newline>'', ''2 3 1.25\<newline>'']"
    by code_simp
  have d': "mtx_fs two_entries (mtx_data_file [''data''] ''ds'') = Some two_entries"
    by code_simp
  have x: "InsertExprData log_execute
         [''('' @ quoted ''g1'' @ '', '' @ quoted ''c2'' @ '', '' @ plain_fmt (Finite (1 / 2)) @ '')'',
          ''('' @ quoted ''g2'' @ '', '' @ quoted ''c3'' @ '', '' @ plain_fmt (Finite (5 / 4)) @ '')'']
         []
       = ([('' INSERT INTO expr VALUES ('' @ quoted ''g1'' @ '', '' @ quoted ''c2''
             @ '', <float>),('' @ quoted ''g2'' @ '', '' @ quoted ''c3'' @ '', <float>)'')], None)"
    by code_simp
  from LoadMTX_roundtrip
         [of "mtx_fs two_entries" "[''data'']" "''ds''" log_execute plain_fmt "[]", OF c r d]
  have "LoadMTX log_execute plain_fmt (mtx_fs two_entries) [''data''] ''ds'' []
       = ([('' INSERT INTO expr VALUES ('' @ quoted ''g1'' @ '', '' @ quoted ''c2''
             @ '', <float>),('' @ quoted ''g2'' @ '', '' @ quoted ''c3'' @ '', <float>)'')], None)"
    using x by (rule trans)
  with d' show ?thesis
    by blast
qed

text \<open>
  C6. For a metadata file, \<open>ParseIDs\<close> returns an index with as many entries as the
  file has lines, its keys are the ordinals 1 to the number of lines, and ordinal
  \<open>i\<close> maps to the text of line \<open>i\<close>, stripped, up to its first tab (the whole
  stripped line when it has no tab).
\<close>

theorem ParseIDs_index:
  assumes "fs mtx_metafile = Some lines"
  shows "\<exists>metadata. ParseIDs fs mtx_metafile = Inr metadata
     \<and> card (dom metadata) = length lines
     \<and> dom metadata = {1 .. int (length lines)}
     \<and> (\<forall>i < length lines.
          metadata (int i + 1) = Some (takeWhile (\<lambda>c. c \<noteq> TAB) (strip (lines ! i))))"
proof -
  let ?m = "ParseIDs_loop 1 Map.empty lines"
  have p: "ParseIDs fs mtx_metafile = Inr ?m"
    using assms by (simp add: ParseIDs_def)
  have d: "dom ?m = {1 .. int (length lines)}"
    by (auto simp: dom_def ParseIDs_loop_lookup)
  then have c: "card (dom ?m) = length lines"
    by simp
  have "\<forall>i < length lines.
          ?m (int i + 1) = Some (takeWhile (\<lambda>c. c \<noteq> TAB) (strip (lines ! i)))"
    by (simp add: ParseIDs_loop_lookup hd_split_on)
  with p d c show ?thesis by blast
qed

theorem ParseIDs_index_witness:
  "[meta_path \<mapsto> meta_lines] meta_path = Some meta_lines
   \<and> (\<exists>metadata. ParseIDs [meta_path \<mapsto> meta_lines] meta_path = Inr metadata
        \<and> card (dom metadata) = 2 \<and> dom metadata = {1 .. 2}
        \<and> metadata 1 = Some ''g1'' \<and> metadata 2 = Some ''g2'')"
proof -
  have h: "[meta_path \<mapsto> meta_lines] meta_path = Some meta_lines"
    by simp
  have n: "length meta_lines = 2"
    by (simp add: meta_lines_def)
  have f1: "takeWhile (\<lambda>c. c \<noteq> TAB) (strip (meta_lines ! 0)) = ''g1''"
    by code_simp
  have f2: "takeWhile (\<lambda>c. c \<noteq> TAB) (strip (meta_lines ! 1)) = ''g2''"
    by code_simp
  from ParseIDs_index [of "[meta_path \<mapsto> meta_lines]" meta_path meta_lines, OF h]
  obtain metadata where m: "ParseIDs [meta_path \<mapsto> meta_lines] meta_path = Inr metadata"
    "card (dom metadata) = length meta_lines"
    "dom metadata = {1 .. int (length meta_lines)}"
    "\<forall>i < length meta_lines.
       metadata (int i + 1) = Some (takeWhile (\<lambda>c. c \<noteq> TAB) (strip (meta_lines ! i)))"
    by blast
  have i0: "(0::nat) < length meta_lines" and i1: "(1::nat) < length meta_lines"
    using n by simp_all
  from m(4) [rule_format, OF i0] f1 have "metadata 1 = Some ''g1''"
    by simp
  moreover from m(4) [rule_format, OF i1] f2 have "metadata 2 = Some ''g2''"
    by simp
  ultimately have "metadata 1 = Some ''g1''" and "metadata 2 = Some ''g2''"
    by simp_all
  with m(1-3) n h show ?thesis
    by simp
qed

text \<open>
  C7, as stated, fails for a line with more than three fields: \<open>normalize\<close> reads the
  first three and ignores the rest, and the stream ends without an exception.
\<close>

theorem StreamMatrixData_extra_fields_accepted:
  "split_on (CHR '' '') (strip ''1 2 0.5 7\<newline>'') = [''1'', ''2'', ''0.5'', ''7'']
   \<and> StreamMatrixData [sample_path \<mapsto> [''1 2 0.5 7\<newline>'']] sample_path 1024
       = Yield [(1, 2, Finite (1 / 2))] Stop"
  by code_simp

text \<open>
  C7, amended. Each data line is split at single spaces; fields 0 and 1 are read by
  \<open>int\<close>, field 2 by \<open>float\<close>, and fields after the third are ignored. The stream
  ends without an exception exactly when every data line has at least three fields of
  which \<open>int\<close> accepts the first two and \<open>float\<close> the third; otherwise it ends
  with the exception that \<open>normalize\<close> raises at the first data line that is not so
  (an IndexError for a missing field, a ValueError for a field that is not numeric), and
  what it emitted is a prefix of the triples of the data lines before that line: nothing
  of that line or after it is emitted.
\<close>

theorem StreamMatrixData_malformed_aborts:
  assumes "fs mtx_datafile = Some lines"
  shows "(outcome (StreamMatrixData fs mtx_datafile batch_size) = None
            \<longleftrightarrow> (\<forall>l \<in> set (data_lines lines). good_line l))
     \<and> (\<forall>e. outcome (StreamMatrixData fs mtx_datafile batch_size) = Some e
            \<longrightarrow> e = ValueError \<or> e = IndexError)
     \<and> outcome (StreamMatrixData fs mtx_datafile batch_size)
         = (case dropWhile good_line (data_lines lines) of
              [] \<Rightarrow> None
            | bad # rest \<Rightarrow> Some (projl (parse_line bad)))
     \<and> prefix (concat (yields (StreamMatrixData fs mtx_datafile batch_size)))
          (map (projr \<circ> parse_line) (takeWhile good_line (data_lines lines)))"
proof -
  have g: "StreamMatrixData fs mtx_datafile batch_size
           = StreamMatrixData_loop batch_size 0 0 [] lines"
    using assms by (simp add: StreamMatrixData_def)
  have "outcome (StreamMatrixData fs mtx_datafile batch_size) = None
          \<longleftrightarrow> (\<forall>l \<in> set (data_lines lines). good_line l)"
    unfolding g by (rule stream_outcome_iff)
  moreover have "\<forall>e. outcome (StreamMatrixData fs mtx_datafile batch_size) = Some e
          \<longrightarrow> e = ValueError \<or> e = IndexError"
    unfolding g using stream_outcome_kind by blast
  moreover have "outcome (StreamMatrixData fs mtx_datafile batch_size)
         = (case dropWhile good_line (data_lines lines) of
              [] \<Rightarrow> None
            | bad # rest \<Rightarrow> Some (projl (parse_line bad)))"
    unfolding g by (rule stream_outcome_first_bad)
  moreover have "prefix (concat (yields (StreamMatrixData fs mtx_datafile batch_size)))
          (map (projr \<circ> parse_line) (takeWhile good_line (data_lines lines)))"
    unfolding g using stream_prefix [of batch_size 0 0 "[]" lines] by simp
  ultimately show ?thesis by blast
qed

theorem StreamMatrixData_malformed_aborts_witness:
  "[sample_path \<mapsto> broken_rows] sample_path = Some broken_rows
   \<and> \<not> list_all good_line (data_lines broken_rows)
   \<and> outcome (StreamMatrixData [sample_path \<mapsto> broken_rows] sample_path 1) = Some IndexError
   \<and> prefix (concat (yields (StreamMatrixData [sample_path \<mapsto> broken_rows] sample_path 1)))
        [(1, 2, Finite (1 / 2))]
   \<and> [sample_path \<mapsto> nonnumeric_rows] sample_path = Some nonnumeric_rows
   \<and> \<not> list_all good_line (data_lines nonnumeric_rows)
   \<and> outcome (StreamMatrixData [sample_path \<mapsto> nonnumeric_rows] sample_path 1)
       = Some ValueError
   \<and> prefix (concat (yields (StreamMatrixData [sample_path \<mapsto> nonnumeric_rows] sample_path 1)))
        [(1, 2, Finite (1 / 2))]
   \<and> [sample_path \<mapsto> separator_rows] sample_path = Some separator_rows
   \<and> \<not> list_all good_line (data_lines separator_rows)
   \<and> outcome (StreamMatrixData [sample_path \<mapsto> separator_rows] sample_path 1024)
       = Some ValueError
   \<and> concat (yields (StreamMatrixData [sample_path \<mapsto> separator_rows] sample_path 1024)) = []"
proof -
  let ?first_bad = "\<lambda>rows. case dropWhile good_line (data_lines rows) of
                      [] \<Rightarrow> None
                    | bad # rest \<Rightarrow> Some (projl (parse_line bad))"
  let ?good = "\<lambda>rows. map (projr \<circ> parse_line) (takeWhile good_line (data_lines rows))"
  have h1: "[sample_path \<mapsto> broken_rows] sample_path = Some broken_rows"
    and h2: "[sample_path \<mapsto> nonnumeric_rows] sample_path = Some nonnumeric_rows"
    and h3: "[sample_path \<mapsto> separator_rows] sample_path = Some separator_rows"
    by simp_all
  have b1: "\<not> list_all good_line (data_lines broken_rows)"
    and b2: "\<not> list_all good_line (data_lines nonnumeric_rows)"
    and b3: "\<not> list_all good_line (data_lines separator_rows)"
    by code_simp+
  have e1: "?first_bad broken_rows = Some IndexError"
    and e2: "?first_bad nonnumeric_rows = Some ValueError"
    and e3: "?first_bad separator_rows = Some ValueError"
    by code_simp+
  have t1: "?good broken_rows = [(1, 2, Finite (1 / 2))]"
    and t2: "?good nonnumeric_rows = [(1, 2, Finite (1 / 2))]"
    and t3: "?good separator_rows = []"
    by code_simp+
  from StreamMatrixData_malformed_aborts
         [of "[sample_path \<mapsto> broken_rows]" sample_path broken_rows 1, OF h1] e1 t1
  have r1: "outcome (StreamMatrixData [sample_path \<mapsto> broken_rows] sample_path 1)
            = Some IndexError"
    "prefix (concat (yields (StreamMatrixData [sample_path \<mapsto> broken_rows] sample_path 1)))
       [(1, 2, Finite (1 / 2))]"
    by simp_all
  from StreamMatrixData_malformed_aborts
         [of "[sample_path \<mapsto> nonnumeric_rows]" sample_path nonnumeric_rows 1, OF h2] e2 t2
  have r2: "outcome (StreamMatrixData [sample_path \<mapsto> nonnumeric_rows] sample_path 1)
            = Some ValueError"
    "prefix (concat (yields (StreamMatrixData [sample_path \<mapsto> nonnumeric_rows] sample_path 1)))
       [(1, 2, Finite (1 / 2))]"
    by simp_all
  from StreamMatrixData_malformed_aborts
         [of "[sample_path \<mapsto> separator_rows]" sample_path separator_rows 1024, OF h3] e3 t3
  have r3: "outcome (StreamMatrixData [sample_path \<mapsto> separator_rows] sample_path 1024)
            = Some ValueError"
    "concat (yields (StreamMatrixData [sample_path \<mapsto> separator_rows] sample_path 1024)) = []"
    by simp_all
  from h1 h2 h3 b1 b2 b3 r1 r2 r3 show ?thesis
    by blast
qed

text \<open>
  C8. When batch \<open>k\<close> of the stream is the first with a triple whose row or column
  ordinal one of the indexes lacks, and the bulk inserts of the batches before it were
  accepted and left the database in state \<open>db'\<close>, then \<open>LoadMTX\<close> ends with a
  KeyError in that same state \<open>db'\<close>: the inserts of the earlier batches stay, and no
  statement is executed for batch \<open>k\<close> or after it.
\<close>

theorem LoadMTX_absent_ordinal:
  assumes "ParseIDs fs (mtx_cols_file dir base) = Inr col_meta"
    and "ParseIDs fs (mtx_rows_file dir base) = Inr row_meta"
    and "batches = yields (StreamMatrixData fs (mtx_data_file dir base) 1024)"
    and "k < length batches"
    and "\<forall>j < k. \<forall>t \<in> set (batches ! j). \<not> absent row_meta col_meta t"
    and "\<exists>t \<in> set (batches ! k). absent row_meta col_meta t"
    and "insert_all execute (map (map (record_text fmt row_meta col_meta)) (take k batches)) db
         = (db', None)"
  shows "LoadMTX execute fmt fs dir base db = (db', Some KeyError)"
proof -
  have "LoadMTX execute fmt fs dir base db
        = LoadMTX_loop execute fmt row_meta col_meta
            (StreamMatrixData fs (mtx_data_file dir base) 1024) db"
    using assms(1,2)
    by (simp add: LoadMTX_def mtx_cols_file_def mtx_rows_file_def mtx_data_file_def)
  also have "\<dots> = (db', Some KeyError)"
    using assms(4-7) unfolding assms(3) by (rule LoadMTX_loop_KeyError)
  finally show ?thesis .
qed

theorem LoadMTX_absent_ordinal_witness:
  "yields (StreamMatrixData (mtx_fs long_rows) (mtx_data_file [''data''] ''ds'') 1024)
     = [replicate 1023 (1, 1, Finite (1 / 2)), [(1, 1, Finite (1 / 2)), (3, 1, Finite 2)]]
   \<and> absent row_index col_index (3, 1, Finite 2)
   \<and> LoadMTX log_execute plain_fmt (mtx_fs long_rows) [''data''] ''ds'' []
       = (['' INSERT INTO expr VALUES ''
            @ join '','' (replicate 1023 (''('' @ quoted ''g1'' @ '', '' @ quoted ''c1''
                                           @ '', <float>)''))],
          Some KeyError)"
proof -
  let ?t = "(1, 1, Finite (1 / 2)) :: triple" and ?u = "(3, 1, Finite 2) :: triple"
  let ?rec = "''('' @ quoted ''g1'' @ '', '' @ quoted ''c1'' @ '', <float>)''"
  let ?bs = "yields (StreamMatrixData (mtx_fs long_rows) (mtx_data_file [''data''] ''ds'') 1024)"
  let ?stmt = "'' INSERT INTO expr VALUES '' @ join '','' (replicate 1023 ?rec)"
  have n: "(1023::nat) = Suc 1022" by simp
  have rep: "replicate 1023 x = x # replicate 1022 x" for x :: 'a
    by (simp only: n replicate.simps)
  have c: "ParseIDs (mtx_fs long_rows) (mtx_cols_file [''data''] ''ds'') = Inr col_index"
    by (simp add: ParseIDs_def mtx_fs_def mtx_cols_file_def mtx_rows_file_def mtx_data_file_def
        path_join_def col_index_def)
  have r: "ParseIDs (mtx_fs long_rows) (mtx_rows_file [''data''] ''ds'') = Inr row_index"
    by (simp add: ParseIDs_def mtx_fs_def mtx_cols_file_def mtx_rows_file_def mtx_data_file_def
        path_join_def row_index_def)
  have d: "mtx_fs long_rows (mtx_data_file [''data''] ''ds'') = Some long_rows"
    by (simp add: mtx_fs_def mtx_cols_file_def mtx_rows_file_def mtx_data_file_def path_join_def)
  have bs: "?bs = [replicate 1023 ?t, [?t, ?u]]"
    by (simp add: StreamMatrixData_def d long_rows_stream rep)
  have k: "1 < length ?bs"
    unfolding bs by simp
  have present: "\<not> absent row_index col_index ?t"
    by code_simp
  have e: "\<forall>j < 1. \<forall>t \<in> set (?bs ! j). \<not> absent row_index col_index t"
    unfolding bs using present by simp
  have gone: "absent row_index col_index ?u"
    by code_simp
  then have a: "\<exists>t \<in> set (?bs ! 1). absent row_index col_index t"
    unfolding bs by simp
  have rec: "record_text plain_fmt row_index col_index ?t = ?rec"
    by code_simp
  have "last ?rec = CHR '')''"
    by (simp add: quoted_def)
  then have "last ?stmt \<noteq> CHR '' ''"
    unfolding n using last_join_replicate [of ?rec "'' INSERT INTO expr VALUES ''" "'',''" 1022]
    by (simp del: replicate.simps join.simps)
  then have "\<not> endswith ?stmt ''VALUES ''"
    by (intro not_endswith_VALUES) simp_all
  then have x: "InsertExprData log_execute (replicate 1023 ?rec) [] = ([?stmt], None)"
    by (simp add: InsertExprData_def InsertData_def log_execute_def)
  have i: "insert_all log_execute (map (map (record_text plain_fmt row_index col_index))
             (take 1 ?bs)) [] = ([?stmt], None)"
    unfolding bs using x by (simp add: rec del: replicate.simps)
  from LoadMTX_absent_ordinal [OF c r refl k e a i] bs gone show ?thesis
    by blast
qed

text \<open>
  C9. For a cluster file of two lines that read, stripped, \<open>1<tab>10<tab>cellA\<close> and
  \<open>1<tab>11<tab>cellB\<close>, in a directory whose final component is \<open>datasetX\<close>,
  \<open>LoadClusters\<close> issues one bulk insert of exactly the records (1, 10, cellA, datasetX)
  and (1, 11, cellB, datasetX).
\<close>

theorem LoadClusters_scenario:
  assumes "fs (path_join dir_path file_name) = Some [line1, line2]"
    and "strip line1 = ''1'' @ [TAB] @ ''10'' @ [TAB] @ ''cellA''"
    and "strip line2 = ''1'' @ [TAB] @ ''11'' @ [TAB] @ ''cellB''"
    and "path_name dir_path = ''datasetX''"
  shows "LoadClusters execute fs dir_path file_name db
     = InsertClusterData execute
         [''(  1 ,10 ,'' @ quoted ''cellA'' @ '' ,'' @ quoted ''datasetX'' @ '')'',
          ''(  1 ,11 ,'' @ quoted ''cellB'' @ '' ,'' @ quoted ''datasetX'' @ '')''] db"
proof -
  have s1: "split_on TAB (''1'' @ [TAB] @ ''10'' @ [TAB] @ ''cellA'') = [''1'', ''10'', ''cellA'']"
    by code_simp
  have s2: "split_on TAB (''1'' @ [TAB] @ ''11'' @ [TAB] @ ''cellB'') = [''1'', ''11'', ''cellB'']"
    by code_simp
  have i1: "py_int (strip ''1'') = Some 1" by code_simp
  have i10: "py_int (strip ''10'') = Some 10" by code_simp
  have i11: "py_int (strip ''11'') = Some 11" by code_simp
  have a: "strip ''cellA'' = ''cellA''" by code_simp
  have b: "strip ''cellB'' = ''cellB''" by code_simp
  have t1: "str_int 1 = ''1''" by code_simp
  have t10: "str_int 10 = ''10''" by code_simp
  have t11: "str_int 11 = ''11''" by code_simp
  have "LoadClusters_loop ''datasetX'' [] [line1, line2]
        = Inr [''(  1 ,10 ,'' @ quoted ''cellA'' @ '' ,'' @ quoted ''datasetX'' @ '')'',
               ''(  1 ,11 ,'' @ quoted ''cellB'' @ '' ,'' @ quoted ''datasetX'' @ '')'']"
    unfolding LoadClusters_loop.simps assms(2,3) s1 s2 
    by (simp add: i1 i10 i11 a b t1 t10 t11)
  with assms(1,4) show ?thesis
    by (simp add: LoadClusters_def)
qed

theorem LoadClusters_scenario_witness:
  "[path_join cluster_dir ''clusters.tsv'' \<mapsto> cluster_lines] (path_join cluster_dir ''clusters.tsv'')
     = Some cluster_lines
   \<and> path_name cluster_dir = ''datasetX''
   \<and> LoadClusters log_execute [path_join cluster_dir ''clusters.tsv'' \<mapsto> cluster_lines]
         cluster_dir ''clusters.tsv'' []
       = ([('' INSERT INTO clusters VALUES (  1 ,10 ,'' @ quoted ''cellA'' @ '' ,''
             @ quoted ''datasetX'' @ ''),(  1 ,11 ,'' @ quoted ''cellB'' @ '' ,''
             @ quoted ''datasetX'' @ '')'')], None)"
proof -
  have h: "[path_join cluster_dir ''clusters.tsv'' \<mapsto> cluster_lines]
             (path_join cluster_dir ''clusters.tsv'')
           = Some [cluster_lines ! 0, cluster_lines ! 1]"
    by (simp add: cluster_lines_def)
  have l1: "strip (cluster_lines ! 0) = ''1'' @ [TAB] @ ''10'' @ [TAB] @ ''cellA''"
    by code_simp
  have l2: "strip (cluster_lines ! 1) = ''1'' @ [TAB] @ ''11'' @ [TAB] @ ''cellB''"
    by code_simp
  have n: "path_name cluster_dir = ''datasetX''"
    by code_simp
  have x: "InsertClusterData log_execute
         [''(  1 ,10 ,'' @ quoted ''cellA'' @ '' ,'' @ quoted ''datasetX'' @ '')'',
          ''(  1 ,11 ,'' @ quoted ''cellB'' @ '' ,'' @ quoted ''datasetX'' @ '')''] []
       = ([('' INSERT INTO clusters VALUES (  1 ,10 ,'' @ quoted ''cellA'' @ '' ,''
             @ quoted ''datasetX'' @ ''),(  1 ,11 ,'' @ quoted ''cellB'' @ '' ,''
             @ quoted ''datasetX'' @ '')'')], None)"
    by code_simp
  have f: "[path_join cluster_dir ''clusters.tsv'' \<mapsto> cluster_lines]
             (path_join cluster_dir ''clusters.tsv'') = Some cluster_lines"
    by simp
  from LoadClusters_scenario
         [of "[path_join cluster_dir ''clusters.tsv'' \<mapsto> cluster_lines]" cluster_dir
             "''clusters.tsv''" "cluster_lines ! 0" "cluster_lines ! 1" log_execute "[]",
          OF h l1 l2 n] x f n
  show ?thesis
    by simp
qed

text \<open>
  C10. For a cluster file with no line, \<open>LoadClusters\<close> builds an empty list of
  records and still calls the bulk insert: the statement has no tuple after VALUES, and
  when the connection rejects it the load ends with that database error, and nothing is
  inserted.
\<close>

theorem LoadClusters_empty_file:
  assumes "fs (path_join dir_path file_name) = Some []"
    and "execute '' INSERT INTO clusters VALUES '' db = (db', Some msg)"
  shows "LoadClusters_loop (path_name dir_path) [] [] = Inr []
     \<and> LoadClusters execute fs dir_path file_name db = InsertClusterData execute [] db
     \<and> LoadClusters execute fs dir_path file_name db = (db', Some (DatabaseError msg))"
  using assms by (simp add: LoadClusters_def InsertClusterData_def InsertData_def)

theorem LoadClusters_empty_file_witness:
  "[path_join cluster_dir ''clusters.tsv'' \<mapsto> []] (path_join cluster_dir ''clusters.tsv'') = Some []
   \<and> log_execute '' INSERT INTO clusters VALUES '' []
       = ([], Some ''Parser Error: syntax error at end of input'')
   \<and> LoadClusters log_execute [path_join cluster_dir ''clusters.tsv'' \<mapsto> []] cluster_dir
         ''clusters.tsv'' []
       = ([], Some (DatabaseError ''Parser Error: syntax error at end of input''))"
proof -
  have h: "[path_join cluster_dir ''clusters.tsv'' \<mapsto> []] (path_join cluster_dir ''clusters.tsv'')
           = Some []"
    by simp
  have x: "log_execute '' INSERT INTO clusters VALUES '' []
           = ([], Some ''Parser Error: syntax error at end of input'')"
    by code_simp
  from LoadClusters_empty_file
         [of "[path_join cluster_dir ''clusters.tsv'' \<mapsto> []]" cluster_dir "''clusters.tsv''"
             log_execute "[]" "[]" "''Parser Error: syntax error at end of input''", OF h x]
  have "LoadClusters log_execute [path_join cluster_dir ''clusters.tsv'' \<mapsto> []] cluster_dir
          ''clusters.tsv'' []
        = ([], Some (DatabaseError ''Parser Error: syntax error at end of input''))"
    by blast
  with h x show ?thesis
    by blast
qed

end
